theory Spec2Isabelle
  imports Main
begin

section \<open>Python values and library operations used by generate_qiime_manifest.py\<close>

text \<open>
  Text files are modelled by their content as text mode presents it (decoded, every line
  ending being a newline character), a \<open>string\<close>; one character of the model is one
  character of the Python \<open>str\<close>. Exceptions are values of the type
  \<open>exn\<close>; a computation that may raise returns \<open>exn + 'a\<close>, with \<open>Inl\<close> the raised
  exception. \<open>InferenceError\<close> is the script's own exception class (a subclass of
  \<open>ValueError\<close>); its argument is the message.
\<close>

datatype exn =
    IndexError
  | TypeError
  | NameError
  | ValueError
  | FileNotFoundError
  | StopIteration
  | InferenceError string

abbreviation NL :: char where
  "NL \<equiv> CHR 0x0A"

text \<open>\<open>xs[i]\<close> on a Python sequence: a negative index counts from the end, and an index
  outside the sequence raises \<open>IndexError\<close>.\<close>

definition getitem :: "'a list \<Rightarrow> int \<Rightarrow> exn + 'a" where
  "getitem xs i =
     (let len = int (length xs);
          k = (if i < 0 then i + len else i)
      in if k < 0 \<or> len \<le> k then Inl IndexError else Inr (xs ! nat k))"

text \<open>\<open>s.split(sep)\<close> for a separator of one character: the result is never empty, and
  has one more field than \<open>s\<close> has separators.\<close>

fun split :: "string \<Rightarrow> char \<Rightarrow> string list" where
  "split [] sep = [[]]"
| "split (c # cs) sep =
     (if c = sep then [] # split cs sep
      else (case split cs sep of
              [] \<Rightarrow> [[c]]
            | f # fs \<Rightarrow> (c # f) # fs))"

text \<open>\<open>s.startswith(p)\<close>.\<close>

definition startswith :: "string \<Rightarrow> string \<Rightarrow> bool" where
  "startswith s p = (take (length p) s = p)"

text \<open>\<open>s.rfind(c)\<close> for one character: the highest index of \<open>c\<close> in \<open>s\<close>, or \<open>-1\<close>.\<close>

fun rfind :: "string \<Rightarrow> char \<Rightarrow> int" where
  "rfind [] c = -1"
| "rfind (x # xs) c =
     (let r = rfind xs c
      in if 0 \<le> r then r + 1 else if x = c then 0 else -1)"

text \<open>The lines a text file yields when it is iterated over, and the list that
  \<open>readlines()\<close> returns: the content cut after every newline, each line keeping its
  newline; a last line without one is kept as it is.\<close>

fun readlines :: "string \<Rightarrow> string list" where
  "readlines [] = []"
| "readlines (c # cs) =
     (if c = NL then [c] # readlines cs
      else (case readlines cs of
              [] \<Rightarrow> [[c]]
            | l # ls \<Rightarrow> (c # l) # ls))"

text \<open>\<open>sys.maxsize\<close>, on a 64-bit build of CPython.\<close>

definition maxsize :: int where
  "maxsize = 2 ^ 63 - 1"

text \<open>\<open>itertools.islice(it, n)\<close>: the first \<open>n\<close> items; an \<open>n\<close> that is negative or
  greater than \<open>sys.maxsize\<close> raises \<open>ValueError\<close>.\<close>

definition islice :: "'a list \<Rightarrow> int \<Rightarrow> exn + 'a list" where
  "islice xs n =
     (if n < 0 \<or> maxsize < n then Inl ValueError else Inr (take (nat n) xs))"

section \<open>Paths and the file system\<close>

text \<open>
  \<open>pathlib.Path\<close> on a POSIX system. A path is its root (empty for a relative path, one
  slash, or two slashes when the string starts with exactly two) and its components;
  empty components and the component \<open>.\<close> are dropped when the path is built.
\<close>

record path =
  root :: string
  parts :: "string list"

definition Path :: "string \<Rightarrow> path" where
  "Path s =
     \<lparr> root = (let k = length (takeWhile (\<lambda>c. c = CHR ''/'') s)
               in if k = 0 then [] else if k = 2 then ''//'' else ''/''),
       parts = filter (\<lambda>f. f \<noteq> [] \<and> f \<noteq> ''.'') (split s (CHR ''/'')) \<rparr>"

fun join :: "string \<Rightarrow> string list \<Rightarrow> string" where
  "join sep [] = []"
| "join sep [f] = f"
| "join sep (f # g # fs) = f @ sep @ join sep (g # fs)"

text \<open>\<open>str(p)\<close>, also what \<open>open(p)\<close> and an f-string take from a path.\<close>

definition str :: "path \<Rightarrow> string" where
  "str p = (if root p = [] \<and> parts p = [] then ''.'' else root p @ join ''/'' (parts p))"

text \<open>\<open>p.name\<close>, \<open>p.suffix\<close> and \<open>p.stem\<close>: the suffix starts at the last dot of the
  name, unless that dot is the first or the last character of the name.\<close>

definition path_name :: "path \<Rightarrow> string" where
  "path_name p = (if parts p = [] then [] else last (parts p))"

definition suffix :: "path \<Rightarrow> string" where
  "suffix p =
     (let name = path_name p; i = rfind name (CHR ''.'')
      in if 0 < i \<and> i < int (length name) - 1 then drop (nat i) name else [])"

definition stem :: "path \<Rightarrow> string" where
  "stem p =
     (let name = path_name p; i = rfind name (CHR ''.'')
      in if 0 < i \<and> i < int (length name) - 1 then take (nat i) name else name)"

text \<open>
  The world the script runs in: the working directory of the process, the regular files
  of the file system with their content, and what has been printed on standard output.
  Files are keyed by their absolute path in normal form. Directories, symbolic links,
  permissions and \<open>..\<close> components are not modelled: a path names a regular file or
  nothing, and every directory it goes through exists and can be written to.
\<close>

record world =
  cwd :: string
  fs :: "string \<rightharpoonup> string"
  stdout :: string

text \<open>\<open>p.absolute()\<close>: a relative path is put under the working directory.\<close>

definition absolute :: "world \<Rightarrow> path \<Rightarrow> path" where
  "absolute w p =
     (if root p \<noteq> [] then p
      else \<lparr> root = root (Path (cwd w)), parts = parts (Path (cwd w)) @ parts p \<rparr>)"

text \<open>The file that the operating system finds under a path string.\<close>

definition os_path :: "world \<Rightarrow> string \<Rightarrow> string" where
  "os_path w s = ''/'' @ join ''/'' (parts (absolute w (Path s)))"

text \<open>\<open>p.exists()\<close>.\<close>

definition path_exists :: "world \<Rightarrow> path \<Rightarrow> bool" where
  "path_exists w p = (fs w (os_path w (str p)) \<noteq> None)"

text \<open>
  \<open>open(s, "r")\<close> followed by reading: the content of the file, or
  \<open>FileNotFoundError\<close>. The empty string names no file.
\<close>

definition open_r :: "world \<Rightarrow> string \<Rightarrow> exn + string" where
  "open_r w s =
     (if s = [] then Inl FileNotFoundError
      else (case fs w (os_path w s) of
              None \<Rightarrow> Inl FileNotFoundError
            | Some content \<Rightarrow> Inr content))"

text \<open>
  \<open>open(s, "w")\<close> and \<open>open(s, "a")\<close>: the buffer that later writes extend. Mode
  \<open>"w"\<close> starts from the empty file, mode \<open>"a"\<close> from the content the file has (a file
  that does not exist is created empty by both). \<open>file_write\<close> is \<open>file.write(line)\<close>,
  and \<open>close\<close> stores the buffer when the \<open>with\<close> block is left.
\<close>

definition open_w :: "world \<Rightarrow> string \<Rightarrow> exn + string" where
  "open_w w s = (if s = [] then Inl FileNotFoundError else Inr [])"

definition open_a :: "world \<Rightarrow> string \<Rightarrow> exn + string" where
  "open_a w s =
     (if s = [] then Inl FileNotFoundError
      else (case fs w (os_path w s) of
              None \<Rightarrow> Inr []
            | Some content \<Rightarrow> Inr content))"

definition file_write :: "string \<Rightarrow> string \<Rightarrow> string" where
  "file_write buf line = buf @ line"

definition close :: "world \<Rightarrow> string \<Rightarrow> string \<Rightarrow> world" where
  "close w s buf = w\<lparr> fs := (fs w)(os_path w s \<mapsto> buf) \<rparr>"

text \<open>\<open>print(s)\<close> and \<open>print(s, end="")\<close>.\<close>

definition print :: "world \<Rightarrow> string \<Rightarrow> world" where
  "print w s = w\<lparr> stdout := stdout w @ s @ [NL] \<rparr>"

definition print_noend :: "world \<Rightarrow> string \<Rightarrow> world" where
  "print_noend w s = w\<lparr> stdout := stdout w @ s \<rparr>"

section \<open>The script\<close>

subsection \<open>Direction and ManifestFile\<close>

datatype Direction = Forward | Reverse | Unknown

text \<open>\<open>direction.value\<close>.\<close>

fun direction_value :: "Direction \<Rightarrow> string" where
  "direction_value Forward = ''forward''"
| "direction_value Reverse = ''reverse''"
| "direction_value Unknown = ''Unknown''"

definition HEADER :: string where
  "HEADER = ''sample-id,absolute-filepath,direction'' @ [NL]"

text \<open>
  The attributes of a \<open>ManifestFile\<close>: \<open>path\<close> is \<open>_path\<close>, \<open>lines\<close> is \<open>_lines\<close> (the
  lines that should already be in the file) and \<open>unwritten_lines\<close> is
  \<open>_unwritten_lines\<close>. The two lists are never shared with another object.
\<close>

record ManifestFile =
  path :: path
  name :: string
  exists :: bool
  lines :: "string list"
  unwritten_lines :: "string list"

text \<open>\<open>ManifestFile(filepath)\<close>, that is \<open>__init__\<close>.\<close>

definition ManifestFile_init :: "world \<Rightarrow> path \<Rightarrow> ManifestFile" where
  "ManifestFile_init w filepath =
     \<lparr> path = filepath,
       name = path_name filepath,
       exists = path_exists w filepath,
       lines = [],
       unwritten_lines = [HEADER] \<rparr>"

text \<open>\<open>ManifestFile.from_file(filepath)\<close>: the header, then every line read from the
  file; the new object gets these as \<open>_lines\<close>, no unwritten line, and \<open>exists = True\<close>.\<close>

definition from_file :: "world \<Rightarrow> path \<Rightarrow> exn + ManifestFile" where
  "from_file w filepath =
     (case open_r w (str filepath) of
        Inl e \<Rightarrow> Inl e
      | Inr content \<Rightarrow>
          (let lines0 = foldl (\<lambda>ls line. ls @ [line]) [HEADER] (readlines content);
               new = ManifestFile_init w filepath
           in Inr (new\<lparr> lines := lines0, unwritten_lines := [], exists := True \<rparr>)))"

definition add_file :: "ManifestFile \<Rightarrow> string \<Rightarrow> string \<Rightarrow> Direction \<Rightarrow> ManifestFile" where
  "add_file self nm file_path direction =
     self\<lparr> unwritten_lines :=
             unwritten_lines self @ [nm @ '','' @ file_path @ '','' @ direction_value direction @ [NL]] \<rparr>"

text \<open>\<open>create\<close> and \<open>update\<close>: the file named \<open>self.name\<close> is opened (mode \<open>"w"\<close> and
  mode \<open>"a"\<close>), every unwritten line is written to it, then the unwritten lines are
  appended to \<open>_lines\<close> and \<open>_unwritten_lines\<close> is cleared. An exception of \<open>open\<close>
  leaves the object and the world as they were.\<close>

definition create :: "world \<Rightarrow> ManifestFile \<Rightarrow> exn + world \<times> ManifestFile" where
  "create w self =
     (case open_w w (name self) of
        Inl e \<Rightarrow> Inl e
      | Inr file \<Rightarrow>
          (let w' = close w (name self) (foldl file_write file (unwritten_lines self))
           in Inr (w', self\<lparr> lines := lines self @ unwritten_lines self,
                              unwritten_lines := [] \<rparr>)))"

definition update :: "world \<Rightarrow> ManifestFile \<Rightarrow> exn + world \<times> ManifestFile" where
  "update w self =
     (case open_a w (name self) of
        Inl e \<Rightarrow> Inl e
      | Inr file \<Rightarrow>
          (let w' = close w (name self) (foldl file_write file (unwritten_lines self))
           in Inr (w', self\<lparr> lines := lines self @ unwritten_lines self,
                              unwritten_lines := [] \<rparr>)))"

subsection \<open>infer\_direction\<close>

text \<open>\<open>member_number\<close> starts as the integer \<open>0\<close> and is later bound to a string.\<close>

datatype pyval = IntVal int | StrVal string

text \<open>The two lambdas. Indexing a string gives a string of one character.\<close>

definition old_format :: "string \<Rightarrow> exn + string" where
  "old_format x =
     (case getitem (split x (CHR '':'')) 4 of
        Inl e \<Rightarrow> Inl e
      | Inr f \<Rightarrow> (case getitem f (-1) of Inl e \<Rightarrow> Inl e | Inr c \<Rightarrow> Inr [c]))"

definition new_format :: "string \<Rightarrow> exn + string" where
  "new_format x =
     (case getitem (split x (CHR '' '')) 1 of
        Inl e \<Rightarrow> Inl e
      | Inr f \<Rightarrow> getitem (split f (CHR '':'')) 0)"

text \<open>
  The \<open>try\<close> statement of the loop body. An \<open>IndexError\<close> of \<open>new_format\<close> is caught by
  the first \<open>except\<close> clause, whose body calls \<open>old_format\<close>; an exception raised in
  that body is not handled by the clauses of the same \<open>try\<close> and leaves the statement.
  The second clause is left with \<open>TypeError\<close> only; its body builds the message of the
  \<open>InferenceError\<close> by calling \<open>script_basename()\<close>, a name the module does not define
  (it is a local variable of \<open>main\<close>), so evaluating it raises \<open>NameError\<close>.
\<close>

definition try_formats :: "string \<Rightarrow> exn + string" where
  "try_formats line =
     (case new_format line of
        Inr t \<Rightarrow> Inr t
      | Inl e \<Rightarrow>
          if e = IndexError then old_format line
          else if e = TypeError then Inl NameError
          else Inl e)"

text \<open>The \<open>for\<close> loop over the lines, returning \<open>member_number\<close> as it is when the loop
  is left: by \<open>break\<close> after the first line starting with \<open>@\<close>, or at the end.\<close>

fun scan :: "string list \<Rightarrow> pyval \<Rightarrow> exn + pyval" where
  "scan [] member_number = Inr member_number"
| "scan (line # rest) member_number =
     (if startswith line ''@'' then
        (case try_formats line of
           Inl e \<Rightarrow> Inl e
         | Inr t \<Rightarrow> Inr (StrVal t))
      else scan rest member_number)"

definition infer_direction :: "world \<Rightarrow> path \<Rightarrow> int \<Rightarrow> exn + Direction" where
  "infer_direction w filepath n =
     (case open_r w (str filepath) of
        Inl e \<Rightarrow> Inl e
      | Inr content \<Rightarrow>
          (case islice (readlines content) n of
             Inl e \<Rightarrow> Inl e
           | Inr lns \<Rightarrow>
               (case scan lns (IntVal 0) of
                  Inl e \<Rightarrow> Inl e
                | Inr member_number \<Rightarrow>
                    if member_number = StrVal ''1'' then Inr Forward
                    else if member_number = StrVal ''2'' then Inr Reverse
                    else Inr Unknown)))"

subsection \<open>extend\_manifest\<close>

text \<open>The loop over the files; \<open>infer_direction\<close> is called with its default \<open>n = 100\<close>,
  and an exception it raises leaves the loop and the method.\<close>

fun extend_manifest :: "world \<Rightarrow> ManifestFile \<Rightarrow> path list \<Rightarrow> bool \<Rightarrow> exn + ManifestFile" where
  "extend_manifest w self [] infer = Inr self"
| "extend_manifest w self (file # rest) infer =
     (if infer then
        (case infer_direction w file 100 of
           Inl e \<Rightarrow> Inl e
         | Inr d \<Rightarrow>
             extend_manifest w (add_file self (stem file) (str (absolute w file)) d) rest infer)
      else
        extend_manifest w (add_file self (stem file) (str (absolute w file)) Unknown) rest infer)"

subsection \<open>main\<close>

text \<open>
  The namespace that \<open>parse_args\<close> returns. \<open>files\<close> has at least one element
  (\<open>nargs="+"\<close>); \<open>output\<close> and \<open>append\<close> are \<open>None\<close> when the option is absent, and the
  parser refuses a command line with both. The fields \<open>output'\<close> and \<open>append'\<close> are \<open>args.output\<close> and \<open>args.append\<close>.
\<close>

record args =
  files :: "string list"
  output' :: "string option"
  append' :: "string option"
  infer :: bool
  no_overwrite :: bool

text \<open>The tests \<open>if args.append:\<close> and \<open>elif args.output:\<close>: \<open>None\<close> and the empty
  string are false.\<close>

definition given :: "string option \<Rightarrow> string option" where
  "given opt = (case opt of None \<Rightarrow> None | Some s \<Rightarrow> if s = [] then None else Some s)"

abbreviation APOS :: char where
  "APOS \<equiv> CHR 0x27"

text \<open>
  \<open>main\<close> is left by \<open>return\<close> with an exit code (\<open>Inr\<close>) or by an exception that
  nothing catches (\<open>Inl\<close>); the world it leaves is the second component.
  \<open>script_basename\<close> is the name of the script file, fixed when the script runs.

  The part that instantiates the \<open>ManifestFile\<close> either leaves \<open>main\<close> (\<open>Inl\<close>) or
  goes on with the manifest (\<open>Inr\<close>).
\<close>

definition instantiate ::
  "string \<Rightarrow> args \<Rightarrow> world \<Rightarrow> ((exn + int) \<times> world) + ManifestFile" where
  "instantiate script_basename a w =
     (case given (append' a) of
        Some ap \<Rightarrow>
          (let file = Path ap
           in if \<not> path_exists w file then
                Inl (Inr 1, print w (script_basename @ '': error: File '' @ str file @ '' not found!''))
              else (case from_file w (Path ap) of
                      Inl e \<Rightarrow> Inl (Inl e, w)
                    | Inr manifest \<Rightarrow> Inr manifest))
      | None \<Rightarrow>
          (case given (output' a) of
             Some out \<Rightarrow>
               (let file = Path out
                in if no_overwrite a \<and> path_exists w file then
                     Inl (Inr 1, print w (script_basename @ '': error: File '' @ str file @ '' exists!''))
                   else Inr (ManifestFile_init w (Path out)))
           | None \<Rightarrow> Inr (ManifestFile_init w (Path ''stdout''))))"

definition main :: "string \<Rightarrow> args \<Rightarrow> world \<Rightarrow> (exn + int) \<times> world" where
  "main script_basename a w =
     (let fls = map Path (files a)
      in if \<not> list_all (\<lambda>file. ''.fastq'' = suffix file) fls then
           (Inr 1, print w (script_basename @
              '': error: All files must be valid fastq files and their names must end with ''
              @ [APOS] @ ''.fastq'' @ [APOS]))
         else if \<not> list_all (path_exists w) fls then
           (case filter (\<lambda>x. \<not> path_exists w x) fls of
              [] \<Rightarrow> (Inl StopIteration, w)
            | x # _ \<Rightarrow>
                (Inr 2, print w (script_basename @
                   '': error: [Errrno 2] No such file or directory '' @ [APOS] @ str x @ [APOS])))
         else
           (case instantiate script_basename a w of
              Inl r \<Rightarrow> r
            | Inr manifest \<Rightarrow>
                (case extend_manifest w manifest fls (infer a) of
                   Inl e \<Rightarrow> (Inl e, w)
                 | Inr manifest' \<Rightarrow>
                     (case given (append' a) of
                        Some ap \<Rightarrow>
                          (case update w manifest' of
                             Inl e \<Rightarrow> (Inl e, w)
                           | Inr (w', m) \<Rightarrow> (Inr 0, w'))
                      | None \<Rightarrow>
                          (case given (output' a) of
                             Some out \<Rightarrow>
                               (case create w manifest' of
                                  Inl e \<Rightarrow> (Inl e, w)
                                | Inr (w', m) \<Rightarrow> (Inr 0, w'))
                           | None \<Rightarrow>
                               (Inr 0, foldl print_noend w (unwritten_lines manifest')))))))"

subsection \<open>Example worlds\<close>

text \<open>
  A working directory \<open>/d\<close> with four files: a read file whose header has the
  post-Casava form, one whose header has neither a space nor a colon, one without any
  header line, and a manifest with its header and one row.
\<close>

definition ex_world :: world where
  "ex_world =
     \<lparr> cwd = ''/d'',
       fs = [''/d/f.fastq'' \<mapsto> ''@SEQ 1:N:0:ATC'' @ [NL] @ ''ACGT'' @ [NL],
             ''/d/r.fastq'' \<mapsto> ''@SEQ'' @ [NL] @ ''ACGT'' @ [NL],
             ''/d/q.fastq'' \<mapsto> ''ACGT'' @ [NL] @ ''TTTT'' @ [NL],
             ''/d/m.csv'' \<mapsto> HEADER @ ''s1,/d/s1.fastq,forward'' @ [NL]],
       stdout = [] \<rparr>"

section \<open>Properties of infer\_direction\<close>

lemma scan_skip:
  "\<forall>l \<in> set pre. \<not> startswith l ''@'' \<Longrightarrow> scan (pre @ rest) v = scan rest v"
  by (induction pre) auto

text \<open>The only exception that indexing, and so the extraction of the token, raises is
  \<open>IndexError\<close>; \<open>infer_direction\<close> therefore never raises \<open>InferenceError\<close>.\<close>

lemma getitem_error: "getitem xs i = Inl e \<Longrightarrow> e = IndexError"
  by (auto simp: getitem_def Let_def split: if_splits)

lemma new_format_error: "new_format x = Inl e \<Longrightarrow> e = IndexError"
  by (auto simp: new_format_def split: sum.splits dest: getitem_error)

lemma old_format_error: "old_format x = Inl e \<Longrightarrow> e = IndexError"
  by (auto simp: old_format_def split: sum.splits dest: getitem_error)

lemma try_formats_error: "try_formats x = Inl e \<Longrightarrow> e = IndexError"
  by (auto simp: try_formats_def split: sum.splits if_splits
           dest: new_format_error old_format_error)

lemma scan_error: "scan ls v = Inl e \<Longrightarrow> e = IndexError"
  by (induction ls) (auto split: if_splits sum.splits dest: try_formats_error)

lemma infer_direction_never_InferenceError:
  "infer_direction w filepath n \<noteq> Inl (InferenceError msg)"
  by (auto simp: infer_direction_def open_r_def islice_def
           split: sum.splits option.splits if_splits dest: scan_error)

text \<open>
  C1. A file whose first header line is \<open>@SEQ\<close> defeats both strategies: the line has no
  second space-delimited field and no fifth colon-delimited field. The claim asks for
  \<open>InferenceError\<close>; the code raises the \<open>IndexError\<close> of \<open>old_format\<close>, which is
  called inside the first \<open>except\<close> clause and so is not caught by the second.
\<close>

theorem infer_direction_unparsable_header:
  "new_format (''@SEQ'' @ [NL]) = Inl IndexError
   \<and> old_format (''@SEQ'' @ [NL]) = Inl IndexError
   \<and> infer_direction ex_world (Path ''r.fastq'') 100 = Inl IndexError"
  by code_simp

text \<open>
  C6. Let \<open>n\<close> be a line limit that \<open>islice\<close> accepts, from \<open>0\<close> to \<open>sys.maxsize\<close>;
  the default is \<open>100\<close>. When the file can be opened and none of its first \<open>n\<close> lines
  starts with \<open>@\<close>, \<open>member_number\<close> is still the integer \<open>0\<close> after the loop and the
  result is \<open>Unknown\<close>; no exception is raised. \<open>take\<close> stops at the end of a file
  with fewer than \<open>n\<close> lines.
\<close>

theorem infer_direction_no_header:
  assumes "open_r w (str filepath) = Inr content"
      and "0 \<le> n" and "n \<le> maxsize"
      and "\<forall>line \<in> set (take (nat n) (readlines content)). \<not> startswith line ''@''"
  shows "infer_direction w filepath n = Inr Unknown
         \<and> scan (take (nat n) (readlines content)) (IntVal 0) = Inr (IntVal 0)"
proof -
  have "scan (take (nat n) (readlines content) @ []) (IntVal 0) = scan [] (IntVal 0)"
    using assms(4) by (rule scan_skip)
  then have s: "scan (take (nat n) (readlines content)) (IntVal 0) = Inr (IntVal 0)"
    by simp
  with assms(1,2,3) show ?thesis
    by (simp add: infer_direction_def islice_def)
qed

theorem infer_direction_no_header_witness:
  "open_r ex_world (str (Path ''q.fastq'')) = Inr (''ACGT'' @ [NL] @ ''TTTT'' @ [NL])
   \<and> length (readlines (''ACGT'' @ [NL] @ ''TTTT'' @ [NL])) = 2
   \<and> infer_direction ex_world (Path ''q.fastq'') 100 = Inr Unknown"
proof -
  have h1: "open_r ex_world (str (Path ''q.fastq'')) = Inr (''ACGT'' @ [NL] @ ''TTTT'' @ [NL])"
    by code_simp
  have h2: "(0::int) \<le> 100"
    by simp
  have h2': "100 \<le> maxsize"
    by (simp add: maxsize_def)
  have h3: "\<forall>line \<in> set (take (nat 100) (readlines (''ACGT'' @ [NL] @ ''TTTT'' @ [NL]))).
              \<not> startswith line ''@''"
    by code_simp
  have h4: "length (readlines (''ACGT'' @ [NL] @ ''TTTT'' @ [NL])) = 2"
    by code_simp
  from infer_direction_no_header [OF h1 h2 h2' h3] h1 h4 show ?thesis
    by simp
qed

text \<open>
  C5. Let \<open>n\<close> be a line limit that \<open>islice\<close> accepts, at most \<open>sys.maxsize\<close>; the
  default is \<open>100\<close>. Let the file be opened, let \<open>h\<close> be its first line starting with
  \<open>@\<close>, among the first \<open>n\<close> lines, and let \<open>t\<close> be the token that the post-Casava extraction gives,
  or, when that one raises \<open>IndexError\<close>, the token that the pre-Casava extraction
  gives. Then the result is \<open>Forward\<close> for \<open>t = "1"\<close>, \<open>Reverse\<close> for \<open>t = "2"\<close> and
  \<open>Unknown\<close> for every other token, and no exception is raised. The lines after \<open>h\<close>
  have no influence.
\<close>

theorem infer_direction_first_header:
  assumes "open_r w (str filepath) = Inr content"
      and "readlines content = pre @ h # post"
      and "\<forall>line \<in> set pre. \<not> startswith line ''@''"
      and "startswith h ''@''"
      and "int (length pre) < n" and "n \<le> maxsize"
      and "new_format h = Inr t \<or> (new_format h = Inl IndexError \<and> old_format h = Inr t)"
  shows "infer_direction w filepath n =
           Inr (if t = ''1'' then Forward else if t = ''2'' then Reverse else Unknown)"
proof -
  have t: "try_formats h = Inr t"
    using assms(7) by (auto simp: try_formats_def)
  have "take (nat n) (pre @ h # post) = pre @ h # take (nat n - Suc (length pre)) post"
    using assms(5) by (simp add: take_Cons')
  then have "scan (take (nat n) (readlines content)) (IntVal 0) = Inr (StrVal t)"
    using assms(2,3,4) t by (simp add: scan_skip)
  with assms(1,5,6) show ?thesis
    by (simp add: infer_direction_def islice_def)
qed

theorem infer_direction_first_header_witness:
  "open_r ex_world (str (Path ''f.fastq'')) = Inr (''@SEQ 1:N:0:ATC'' @ [NL] @ ''ACGT'' @ [NL])
   \<and> new_format (''@SEQ 1:N:0:ATC'' @ [NL]) = Inr ''1''
   \<and> infer_direction ex_world (Path ''f.fastq'') 100 = Inr Forward"
proof -
  have h1: "open_r ex_world (str (Path ''f.fastq''))
              = Inr (''@SEQ 1:N:0:ATC'' @ [NL] @ ''ACGT'' @ [NL])"
    by code_simp
  have h2: "readlines (''@SEQ 1:N:0:ATC'' @ [NL] @ ''ACGT'' @ [NL])
              = [] @ (''@SEQ 1:N:0:ATC'' @ [NL]) # [''ACGT'' @ [NL]]"
    by code_simp
  have h3: "\<forall>line \<in> set ([] :: string list). \<not> startswith line ''@''"
    by simp
  have h4: "startswith (''@SEQ 1:N:0:ATC'' @ [NL]) ''@''"
    by code_simp
  have h5: "int (length ([] :: string list)) < 100"
    by simp
  have h5': "100 \<le> maxsize"
    by (simp add: maxsize_def)
  have h6: "new_format (''@SEQ 1:N:0:ATC'' @ [NL]) = Inr ''1''"
    by code_simp
  from infer_direction_first_header [OF h1 h2 h3 h4 h5 h5' disjI1 [OF h6]] h1 h6 show ?thesis
    by simp
qed

section \<open>Properties of ManifestFile\<close>

lemma add_file_fields:
  "unwritten_lines (add_file self nm fp d) = unwritten_lines self @ [nm @ '','' @ fp @ '','' @ direction_value d @ [NL]]"
  "lines (add_file self nm fp d) = lines self"
  "exists (add_file self nm fp d) = exists self"
  "name (add_file self nm fp d) = name self"
  "path (add_file self nm fp d) = path self"
  by (simp_all add: add_file_def)

text \<open>
  C7. When \<open>extend_manifest\<close> returns, the unwritten lines have grown by one row for
  each input file, in the order of the files, and nothing else of the buffers has
  changed: the row of a file is its stem, its absolute path and the value of its
  direction, separated by commas and ended by a newline, where the direction is the one
  \<open>infer_direction\<close> returned for the file when inference is on and \<open>Unknown\<close>
  otherwise. So the number of rows added is the number of input files.
\<close>

theorem extend_manifest_rows:
  assumes "extend_manifest w self fls flag = Inr self'"
  shows "\<exists>ds. list_all2 (\<lambda>file d. if flag then infer_direction w file 100 = Inr d else d = Unknown) fls ds
            \<and> unwritten_lines self' =
                unwritten_lines self
                @ map2 (\<lambda>file d. stem file @ '','' @ str (absolute w file) @ '','' @ direction_value d @ [NL]) fls ds
            \<and> length (unwritten_lines self') = length (unwritten_lines self) + length fls
            \<and> lines self' = lines self"
  using assms
proof (induction fls arbitrary: self)
  case Nil
  then show ?case by simp
next
  case (Cons f rest)
  show ?case
  proof (cases flag)
    case True
    with Cons.prems obtain d where d: "infer_direction w f 100 = Inr d"
      and rest: "extend_manifest w (add_file self (stem f) (str (absolute w f)) d) rest flag = Inr self'"
      by (auto split: sum.splits)
    from Cons.IH [OF rest] obtain ds where
      "list_all2 (\<lambda>file d. if flag then infer_direction w file 100 = Inr d else d = Unknown) rest ds"
      "unwritten_lines self' = unwritten_lines (add_file self (stem f) (str (absolute w f)) d)
           @ map2 (\<lambda>file d. stem file @ '','' @ str (absolute w file) @ '','' @ direction_value d @ [NL]) rest ds"
      "length (unwritten_lines self') = length (unwritten_lines (add_file self (stem f) (str (absolute w f)) d)) + length rest"
      "lines self' = lines (add_file self (stem f) (str (absolute w f)) d)"
      by blast
    with d True show ?thesis
      by (intro exI [of _ "d # ds"]) (simp add: add_file_fields)
  next
    case False
    with Cons.prems have rest:
      "extend_manifest w (add_file self (stem f) (str (absolute w f)) Unknown) rest flag = Inr self'"
      by simp
    from Cons.IH [OF rest] obtain ds where
      "list_all2 (\<lambda>file d. if flag then infer_direction w file 100 = Inr d else d = Unknown) rest ds"
      "unwritten_lines self' = unwritten_lines (add_file self (stem f) (str (absolute w f)) Unknown)
           @ map2 (\<lambda>file d. stem file @ '','' @ str (absolute w file) @ '','' @ direction_value d @ [NL]) rest ds"
      "length (unwritten_lines self') = length (unwritten_lines (add_file self (stem f) (str (absolute w f)) Unknown)) + length rest"
      "lines self' = lines (add_file self (stem f) (str (absolute w f)) Unknown)"
      by blast
    with False show ?thesis
      by (intro exI [of _ "Unknown # ds"]) (simp add: add_file_fields)
  qed
qed

theorem extend_manifest_rows_witness:
  "\<exists>self'. extend_manifest ex_world (ManifestFile_init ex_world (Path ''out.csv''))
             [Path ''f.fastq'', Path ''q.fastq''] True = Inr self'
         \<and> length (unwritten_lines self') = 1 + 2"
proof -
  have "case extend_manifest ex_world (ManifestFile_init ex_world (Path ''out.csv''))
               [Path ''f.fastq'', Path ''q.fastq''] True of
          Inl e \<Rightarrow> False | Inr m \<Rightarrow> True"
    by code_simp
  then obtain self' where h:
    "extend_manifest ex_world (ManifestFile_init ex_world (Path ''out.csv''))
       [Path ''f.fastq'', Path ''q.fastq''] True = Inr self'"
    by (cases "extend_manifest ex_world (ManifestFile_init ex_world (Path ''out.csv''))
                 [Path ''f.fastq'', Path ''q.fastq''] True") (simp_all only: sum.case)
  from extend_manifest_rows [OF h]
  have "length (unwritten_lines self')
          = length (unwritten_lines (ManifestFile_init ex_world (Path ''out.csv'')))
            + length [Path ''f.fastq'', Path ''q.fastq'']"
    by blast
  then have "length (unwritten_lines self') = 1 + 2"
    by (simp add: ManifestFile_init_def)
  with h show ?thesis by blast
qed


lemma os_path_close [simp]: "os_path (close w s buf) t = os_path w t"
  by (simp add: os_path_def close_def absolute_def)

lemma foldl_file_write: "foldl file_write buf ls = buf @ concat ls"
  by (induction ls arbitrary: buf) (simp_all add: file_write_def)

lemma create_result:
  "name self \<noteq> [] \<Longrightarrow>
   create w self =
     Inr (w\<lparr> fs := (fs w)(os_path w (name self) \<mapsto> concat (unwritten_lines self)) \<rparr>,
          self\<lparr> lines := lines self @ unwritten_lines self, unwritten_lines := [] \<rparr>)"
  by (simp add: create_def open_w_def close_def foldl_file_write)

lemma update_result:
  "name self \<noteq> [] \<Longrightarrow>
   update w self =
     Inr (w\<lparr> fs := (fs w)(os_path w (name self) \<mapsto>
                 (case fs w (os_path w (name self)) of None \<Rightarrow> [] | Some c \<Rightarrow> c)
                 @ concat (unwritten_lines self)) \<rparr>,
          self\<lparr> lines := lines self @ unwritten_lines self, unwritten_lines := [] \<rparr>)"
  by (simp add: update_def open_a_def close_def foldl_file_write split: option.splits)

lemma create_error: "name self = [] \<Longrightarrow> create w self = Inl FileNotFoundError"
  by (simp add: create_def open_w_def)

lemma update_error: "name self = [] \<Longrightarrow> update w self = Inl FileNotFoundError"
  by (simp add: update_def open_a_def)

lemma flushed:
  assumes "create w self = Inr (w1, m1) \<or> update w self = Inr (w1, m1)"
  shows "name m1 \<noteq> [] \<and> unwritten_lines m1 = [] \<and> fs w1 (os_path w1 (name m1)) \<noteq> None"
proof (cases "name self = []")
  case True
  with assms show ?thesis by (simp add: create_error update_error)
next
  case False
  with assms show ?thesis
    by (auto simp: create_result update_result os_path_def absolute_def)
qed

text \<open>
  C2. The claim fails for \<open>create\<close>: a new document for \<open>new.csv\<close> is created, which
  writes the header and leaves no unwritten line; a second \<open>create\<close> opens the file in
  mode \<open>"w"\<close> again, which empties it, and writes nothing.
\<close>

theorem create_twice_truncates:
  "(case create ex_world (ManifestFile_init ex_world (Path ''new.csv'')) of
      Inl e \<Rightarrow> False
    | Inr (w1, m1) \<Rightarrow>
        unwritten_lines m1 = [] \<and> fs w1 ''/d/new.csv'' = Some HEADER
        \<and> (case create w1 m1 of
              Inl e \<Rightarrow> False
            | Inr (w2, m2) \<Rightarrow> fs w2 ''/d/new.csv'' = Some [] \<and> fs w2 ''/d/new.csv'' \<noteq> fs w1 ''/d/new.csv''))"
  by code_simp

text \<open>
  C2, as amended. After a first flush by \<open>create\<close> or \<open>update\<close>, a second flush writes
  no character and returns the document as it is, with both buffers unchanged. By
  \<open>update\<close> it leaves the world, and so the content of the file, unchanged; by
  \<open>create\<close> it leaves the file empty.
\<close>

theorem second_flush:
  assumes "create w self = Inr (w1, m1) \<or> update w self = Inr (w1, m1)"
  shows "update w1 m1 = Inr (w1, m1)
       \<and> create w1 m1 = Inr (w1\<lparr> fs := (fs w1)(os_path w1 (name m1) \<mapsto> []) \<rparr>, m1)"
proof -
  from flushed [OF assms] obtain c where
    n: "name m1 \<noteq> []" and u: "unwritten_lines m1 = []" and c: "fs w1 (os_path w1 (name m1)) = Some c"
    by auto
  have "(fs w1)(os_path w1 (name m1) \<mapsto> c) = fs w1"
    using c by (simp add: fun_upd_idem)
  with n u c show ?thesis
    by (simp add: create_result update_result)
qed

theorem second_flush_witness:
  "\<exists>w1 m1. create ex_world (ManifestFile_init ex_world (Path ''new.csv'')) = Inr (w1, m1)
       \<and> update w1 m1 = Inr (w1, m1)
       \<and> create w1 m1 = Inr (w1\<lparr> fs := (fs w1)(os_path w1 (name m1) \<mapsto> []) \<rparr>, m1)"
proof -
  have "name (ManifestFile_init ex_world (Path ''new.csv'')) \<noteq> []"
    by code_simp
  then obtain w1 m1 where h: "create ex_world (ManifestFile_init ex_world (Path ''new.csv'')) = Inr (w1, m1)"
    by (simp add: create_result)
  from second_flush [OF disjI1 [OF h]] h show ?thesis
    by blast
qed

text \<open>A row is never the header, so a document built by \<open>ManifestFile(path)\<close> holds the header
  exactly once, before and after it is flushed.\<close>

lemma row_not_HEADER:
  "nm @ '','' @ fp @ '','' @ direction_value d @ [NL] \<noteq> HEADER"
proof
  assume "nm @ '','' @ fp @ '','' @ direction_value d @ [NL] = HEADER"
  then have "rev (nm @ '','' @ fp @ '','' @ direction_value d @ [NL]) = rev HEADER"
    by simp
  then show False
    by (cases d) (simp_all add: HEADER_def)
qed

lemma extend_manifest_header_count:
  "extend_manifest w self fls flag = Inr self' \<Longrightarrow>
     count_list (lines self' @ unwritten_lines self') HEADER
       = count_list (lines self @ unwritten_lines self) HEADER"
proof (induction fls arbitrary: self)
  case Nil
  then show ?case by simp
next
  case (Cons f rest)
  have "count_list (lines (add_file self nm fp d) @ unwritten_lines (add_file self nm fp d)) HEADER
          = count_list (lines self @ unwritten_lines self) HEADER" for nm fp d
    using row_not_HEADER [of nm fp d] by (simp add: add_file_def)
  with Cons show ?case
    by (auto split: if_splits sum.splits)
qed

lemma new_document_header_once:
  assumes "extend_manifest w (ManifestFile_init w p) fls flag = Inr m"
  shows "count_list (lines m @ unwritten_lines m) HEADER = 1"
    and "create w m = Inr (w', m') \<Longrightarrow> count_list (lines m' @ unwritten_lines m') HEADER = 1"
    and "update w m = Inr (w', m') \<Longrightarrow> count_list (lines m' @ unwritten_lines m') HEADER = 1"
proof -
  from extend_manifest_header_count [OF assms]
  show one: "count_list (lines m @ unwritten_lines m) HEADER = 1"
    by (simp add: ManifestFile_init_def)
  { assume "create w m = Inr (w', m')"
    with one show "count_list (lines m' @ unwritten_lines m') HEADER = 1"
      by (auto simp: create_def split: sum.splits) }
  { assume "update w m = Inr (w', m')"
    with one show "count_list (lines m' @ unwritten_lines m') HEADER = 1"
      by (auto simp: update_def split: sum.splits) }
qed

text \<open>
  C3. \<open>from_file\<close> puts the header in front of the lines it reads, whatever the first
  line of the file is. For the manifest \<open>m.csv\<close>, which begins with the header as every
  file written by \<open>create\<close> does, the header is in \<open>_lines\<close> twice.
\<close>

theorem from_file_duplicates_header:
  "open_r ex_world (str (Path ''m.csv'')) = Inr (HEADER @ ''s1,/d/s1.fastq,forward'' @ [NL])
   \<and> (case from_file ex_world (Path ''m.csv'') of
        Inl e \<Rightarrow> False
      | Inr m \<Rightarrow>
          lines m = [HEADER, HEADER, ''s1,/d/s1.fastq,forward'' @ [NL]]
          \<and> unwritten_lines m = []
          \<and> count_list (lines m @ unwritten_lines m) HEADER = 2)"
  by code_simp

text \<open>
  C4. \<open>create\<close> opens \<open>self.name\<close>, the last component of the path, not the path. For a
  document built for \<open>out/new.csv\<close> in the working directory \<open>/d\<close>, the lines are
  written to \<open>/d/new.csv\<close>, and \<open>/d/out/new.csv\<close> still does not exist.
\<close>

theorem create_writes_to_name:
  "path_name (Path ''out/new.csv'') = ''new.csv''
   \<and> os_path ex_world (str (Path ''out/new.csv'')) = ''/d/out/new.csv''
   \<and> os_path ex_world ''new.csv'' = ''/d/new.csv''
   \<and> (case create ex_world
             (add_file (ManifestFile_init ex_world (Path ''out/new.csv''))
                ''f'' ''/d/f.fastq'' Forward) of
        Inl e \<Rightarrow> False
      | Inr (w', m') \<Rightarrow>
          fs w' ''/d/out/new.csv'' = None
          \<and> \<not> path_exists w' (Path ''out/new.csv'')
          \<and> fs w' ''/d/new.csv'' = Some (HEADER @ ''f,/d/f.fastq,forward'' @ [NL]))"
  by code_simp





section \<open>Properties of main\<close>

lemma fs_print [simp]: "fs (print w s) = fs w"
  by (simp add: print_def)

lemma cwd_print [simp]: "cwd (print w s) = cwd w"
  by (simp add: print_def)

lemma instantiate_leaves:
  "instantiate sb a w = Inl r \<Longrightarrow> fs (snd r) = fs w \<and> fst r \<noteq> Inr 0"
  by (auto simp: instantiate_def Let_def split: option.splits if_splits sum.splits)

lemma extend_manifest_fails:
  "\<exists>f \<in> set fls. \<exists>e. infer_direction w f 100 = Inl e \<Longrightarrow>
     \<exists>e. extend_manifest w self fls True = Inl e \<and> (\<exists>f \<in> set fls. infer_direction w f 100 = Inl e)"
proof (induction fls arbitrary: self)
  case Nil
  then show ?case by simp
next
  case (Cons f rest)
  show ?case
  proof (cases "infer_direction w f 100")
    case (Inl e)
    then show ?thesis by auto
  next
    case (Inr d)
    with Cons.prems have "\<exists>g \<in> set rest. \<exists>e. infer_direction w g 100 = Inl e"
      by auto
    from Cons.IH [OF this, of "add_file self (stem f) (str (absolute w f)) d"] Inr
    show ?thesis by auto
  qed
qed

lemma filter_missing:
  "\<not> list_all P xs \<Longrightarrow> \<exists>x rest. filter (\<lambda>x. \<not> P x) xs = x # rest \<and> \<not> P x \<and> x \<in> set xs"
  by (induction xs) auto

text \<open>
  C8. Let inference be on and let \<open>infer_direction\<close> raise for one of the input files.
  Then \<open>main\<close> does not return \<open>0\<close> and leaves every file as it was, whatever the
  options are. When the checks of \<open>main\<close> pass and the manifest has been instantiated,
  \<open>main\<close> is left by an exception that \<open>infer_direction\<close> raised for an input file,
  in the world it started in: nothing has been written or printed.
\<close>

theorem main_inference_failure:
  assumes "infer a"
      and "\<exists>f \<in> set (files a). \<exists>e. infer_direction w (Path f) 100 = Inl e"
  shows "fs (snd (main sb a w)) = fs w
       \<and> fst (main sb a w) \<noteq> Inr 0
       \<and> (list_all (\<lambda>file. ''.fastq'' = suffix file) (map Path (files a))
            \<and> list_all (path_exists w) (map Path (files a))
            \<and> instantiate sb a w = Inr manifest \<longrightarrow>
          (\<exists>e. main sb a w = (Inl e, w)
               \<and> (\<exists>f \<in> set (files a). infer_direction w (Path f) 100 = Inl e)))"
proof -
  have "\<exists>f \<in> set (map Path (files a)). \<exists>e. infer_direction w f 100 = Inl e"
    using assms(2) by auto
  from extend_manifest_fails [OF this]
  have ext: "\<And>m. \<exists>e. extend_manifest w m (map Path (files a)) (infer a) = Inl e
                    \<and> (\<exists>f \<in> set (files a). infer_direction w (Path f) 100 = Inl e)"
    using assms(1) by auto
  show ?thesis
  proof (cases "list_all (\<lambda>file. ''.fastq'' = suffix file) (map Path (files a))")
    case False
    then show ?thesis by (simp add: main_def)
  next
    case suf: True
    show ?thesis
    proof (cases "list_all (path_exists w) (map Path (files a))")
      case False
      from filter_missing [OF this] obtain x rest where
        "filter (\<lambda>x. \<not> path_exists w x) (map Path (files a)) = x # rest" by blast
      with suf False show ?thesis by (simp add: main_def)
    next
      case ex: True
      show ?thesis
      proof (cases "instantiate sb a w")
        case (Inl r)
        with suf ex instantiate_leaves [OF Inl] show ?thesis
          by (simp add: main_def)
      next
        case (Inr m)
        from ext [of m] obtain e where
          "extend_manifest w m (map Path (files a)) (infer a) = Inl e"
          "\<exists>f \<in> set (files a). infer_direction w (Path f) 100 = Inl e" by blast
        with suf ex Inr show ?thesis
          by (auto simp: main_def)
      qed
    qed
  qed
qed

theorem main_inference_failure_witness:
  "infer \<lparr> files = [''f.fastq'', ''r.fastq''], output' = Some ''out.csv'', append' = None,
            infer = True, no_overwrite = False \<rparr>
   \<and> infer_direction ex_world (Path ''r.fastq'') 100 = Inl IndexError
   \<and> (\<exists>e. main ''gen.py''
              \<lparr> files = [''f.fastq'', ''r.fastq''], output' = Some ''out.csv'', append' = None,
                infer = True, no_overwrite = False \<rparr> ex_world = (Inl e, ex_world))
   \<and> fs (snd (main ''gen.py''
              \<lparr> files = [''f.fastq'', ''r.fastq''], output' = Some ''out.csv'', append' = None,
                infer = True, no_overwrite = False \<rparr> ex_world)) = fs ex_world"
proof -
  let ?a = "\<lparr> files = [''f.fastq'', ''r.fastq''], output' = Some ''out.csv'', append' = None,
              infer = True, no_overwrite = False \<rparr>"
  have h1: "infer ?a"
    by simp
  have r: "infer_direction ex_world (Path ''r.fastq'') 100 = Inl IndexError"
    by code_simp
  then have h2: "\<exists>f \<in> set (files ?a). \<exists>e. infer_direction ex_world (Path f) 100 = Inl e"
    by simp
  have h3: "list_all (\<lambda>file. ''.fastq'' = suffix file) (map Path (files ?a))"
    by code_simp
  have h4: "list_all (path_exists ex_world) (map Path (files ?a))"
    by code_simp
  have h5: "instantiate ''gen.py'' ?a ex_world = Inr (ManifestFile_init ex_world (Path ''out.csv''))"
    by (simp add: instantiate_def given_def)
  from main_inference_failure [OF h1 h2, of "''gen.py''" "ManifestFile_init ex_world (Path ''out.csv'')"]
       h3 h4 h5
  have "fs (snd (main ''gen.py'' ?a ex_world)) = fs ex_world"
    and "\<exists>e. main ''gen.py'' ?a ex_world = (Inl e, ex_world)"
    by blast+
  with h1 r show ?thesis
    by blast
qed

text \<open>
  C9. The checks of \<open>main\<close>, in their order; an option is given when the test
  \<open>if args.append:\<close> (or \<open>elif args.output:\<close>) of the code succeeds.
  \<^item> A file whose suffix is not \<open>.fastq\<close>: exit code \<open>1\<close>.
  \<^item> Otherwise, a file that does not exist: exit code \<open>2\<close>, and the message names the
    first such file.
  \<^item> Otherwise, with \<open>-a\<close>, when the target does not exist: exit code \<open>1\<close>.
  \<^item> Otherwise, with \<open>-o\<close> and \<open>-n\<close>, when the target exists: exit code \<open>1\<close>.

  In each case \<open>main\<close> returns in the world it started in with one message printed;
  printing changes no file.
\<close>

theorem main_validation:
  "(\<not> list_all (\<lambda>file. ''.fastq'' = suffix file) (map Path (files a)) \<longrightarrow>
      main sb a w =
        (Inr 1, print w (sb @
           '': error: All files must be valid fastq files and their names must end with ''
           @ [APOS] @ ''.fastq'' @ [APOS])))
   \<and> (list_all (\<lambda>file. ''.fastq'' = suffix file) (map Path (files a))
        \<and> \<not> list_all (path_exists w) (map Path (files a)) \<longrightarrow>
      (\<exists>x rest. filter (\<lambda>x. \<not> path_exists w x) (map Path (files a)) = x # rest
         \<and> main sb a w =
             (Inr 2, print w (sb @
                '': error: [Errrno 2] No such file or directory '' @ [APOS] @ str x @ [APOS]))))
   \<and> (list_all (\<lambda>file. ''.fastq'' = suffix file) (map Path (files a))
        \<and> list_all (path_exists w) (map Path (files a))
        \<and> given (append' a) = Some ap \<and> \<not> path_exists w (Path ap) \<longrightarrow>
      main sb a w =
        (Inr 1, print w (sb @ '': error: File '' @ str (Path ap) @ '' not found!'')))
   \<and> (list_all (\<lambda>file. ''.fastq'' = suffix file) (map Path (files a))
        \<and> list_all (path_exists w) (map Path (files a))
        \<and> given (append' a) = None \<and> given (output' a) = Some out
        \<and> no_overwrite a \<and> path_exists w (Path out) \<longrightarrow>
      main sb a w =
        (Inr 1, print w (sb @ '': error: File '' @ str (Path out) @ '' exists!'')))
   \<and> fs (print w msg) = fs w"
proof (intro conjI impI)
  assume "\<not> list_all (\<lambda>file. ''.fastq'' = suffix file) (map Path (files a))"
  then show "main sb a w =
        (Inr 1, print w (sb @
           '': error: All files must be valid fastq files and their names must end with ''
           @ [APOS] @ ''.fastq'' @ [APOS]))"
    by (simp add: main_def)
next
  assume h: "list_all (\<lambda>file. ''.fastq'' = suffix file) (map Path (files a))
        \<and> \<not> list_all (path_exists w) (map Path (files a))"
  then have "\<not> list_all (path_exists w) (map Path (files a))" by simp
  from filter_missing [OF this] obtain x rest where
    "filter (\<lambda>x. \<not> path_exists w x) (map Path (files a)) = x # rest" by blast
  with h show "\<exists>x rest. filter (\<lambda>x. \<not> path_exists w x) (map Path (files a)) = x # rest
         \<and> main sb a w =
             (Inr 2, print w (sb @
                '': error: [Errrno 2] No such file or directory '' @ [APOS] @ str x @ [APOS]))"
    by (simp add: main_def)
next
  assume "list_all (\<lambda>file. ''.fastq'' = suffix file) (map Path (files a))
        \<and> list_all (path_exists w) (map Path (files a))
        \<and> given (append' a) = Some ap \<and> \<not> path_exists w (Path ap)"
  then show "main sb a w =
        (Inr 1, print w (sb @ '': error: File '' @ str (Path ap) @ '' not found!''))"
    by (simp add: main_def instantiate_def)
next
  assume "list_all (\<lambda>file. ''.fastq'' = suffix file) (map Path (files a))
        \<and> list_all (path_exists w) (map Path (files a))
        \<and> given (append' a) = None \<and> given (output' a) = Some out
        \<and> no_overwrite a \<and> path_exists w (Path out)"
  then show "main sb a w =
        (Inr 1, print w (sb @ '': error: File '' @ str (Path out) @ '' exists!''))"
    by (simp add: main_def instantiate_def)
next
  show "fs (print w msg) = fs w" by simp
qed

theorem main_validation_witness:
  "fst (main ''gen.py''
          \<lparr> files = [''f.fasta''], output' = None, append' = None,
            infer = False, no_overwrite = False \<rparr> ex_world) = Inr 1
   \<and> fst (main ''gen.py''
          \<lparr> files = [''f.fastq'', ''z.fastq''], output' = None, append' = None,
            infer = False, no_overwrite = False \<rparr> ex_world) = Inr 2
   \<and> main ''gen.py''
          \<lparr> files = [''f.fastq''], output' = None, append' = Some ''none.csv'',
            infer = False, no_overwrite = False \<rparr> ex_world
        = (Inr 1, print ex_world ''gen.py: error: File none.csv not found!'')
   \<and> main ''gen.py''
          \<lparr> files = [''f.fastq''], output' = Some ''m.csv'', append' = None,
            infer = False, no_overwrite = True \<rparr> ex_world
        = (Inr 1, print ex_world ''gen.py: error: File m.csv exists!'')"
proof -
  let ?a1 = "\<lparr> files = [''f.fasta''], output' = None, append' = None,
               infer = False, no_overwrite = False \<rparr>"
  let ?a2 = "\<lparr> files = [''f.fastq'', ''z.fastq''], output' = None, append' = None,
               infer = False, no_overwrite = False \<rparr>"
  let ?a3 = "\<lparr> files = [''f.fastq''], output' = None, append' = Some ''none.csv'',
               infer = False, no_overwrite = False \<rparr>"
  let ?a4 = "\<lparr> files = [''f.fastq''], output' = Some ''m.csv'', append' = None,
               infer = False, no_overwrite = True \<rparr>"
  have "\<not> list_all (\<lambda>file. ''.fastq'' = suffix file) (map Path (files ?a1))"
    by code_simp
  with main_validation [of ?a1 "''gen.py''" ex_world]
  have c1: "fst (main ''gen.py'' ?a1 ex_world) = Inr 1"
    by simp
  have "list_all (\<lambda>file. ''.fastq'' = suffix file) (map Path (files ?a2))
        \<and> \<not> list_all (path_exists ex_world) (map Path (files ?a2))"
    by code_simp
  with main_validation [of ?a2 "''gen.py''" ex_world]
  have c2: "fst (main ''gen.py'' ?a2 ex_world) = Inr 2"
    by auto
  have "list_all (\<lambda>file. ''.fastq'' = suffix file) (map Path (files ?a3))
        \<and> list_all (path_exists ex_world) (map Path (files ?a3))
        \<and> given (append' ?a3) = Some ''none.csv'' \<and> \<not> path_exists ex_world (Path ''none.csv'')"
    by code_simp
  with main_validation [of ?a3 "''gen.py''" ex_world "''none.csv''"]
  have "main ''gen.py'' ?a3 ex_world
          = (Inr 1, print ex_world (''gen.py'' @ '': error: File '' @ str (Path ''none.csv'') @ '' not found!''))"
    by blast
  moreover have "str (Path ''none.csv'') = ''none.csv''"
    by code_simp
  ultimately have c3: "main ''gen.py'' ?a3 ex_world
          = (Inr 1, print ex_world ''gen.py: error: File none.csv not found!'')"
    by simp
  have "list_all (\<lambda>file. ''.fastq'' = suffix file) (map Path (files ?a4))
        \<and> list_all (path_exists ex_world) (map Path (files ?a4))
        \<and> given (append' ?a4) = None \<and> given (output' ?a4) = Some ''m.csv''
        \<and> no_overwrite ?a4 \<and> path_exists ex_world (Path ''m.csv'')"
    by code_simp
  with main_validation [of ?a4 "''gen.py''" ex_world _ "''m.csv''"]
  have "main ''gen.py'' ?a4 ex_world
          = (Inr 1, print ex_world (''gen.py'' @ '': error: File '' @ str (Path ''m.csv'') @ '' exists!''))"
    by blast
  moreover have "str (Path ''m.csv'') = ''m.csv''"
    by code_simp
  ultimately have c4: "main ''gen.py'' ?a4 ex_world
          = (Inr 1, print ex_world ''gen.py: error: File m.csv exists!'')"
    by simp
  from c1 c2 c3 c4 show ?thesis
    by blast
qed

end
